theory Spec2Isabelle
  imports Complex_Main "HOL-Library.Multiset" "HOL-Library.Char_ord" "HOL-Library.List_Lexorder"
begin

section \<open>Headline Classifier Local: values, errors and output\<close>

text \<open>
  The notebook \<^verbatim>\<open>custom_tensorflow_keras_nlp/Headline Classifier Local.ipynb\<close> is a
  linear script of cells. Each cell is embedded as a function of the notebook variables it
  reads; a Python exception is a value \<open>Inl e\<close> of a sum type, and what a cell prints is
  returned as a list of printed items.

  Numeric arrays are lists of rows. Token ids and padded documents (\<open>int32\<close> in numpy) are
  natural numbers, since the ids of a fitted tokenizer are positive and the padding value
  is 0; an id that does not fit \<open>int32\<close> makes the conversion raise. Probabilities, one-hot labels and embedding weights (\<open>float32\<close>) are idealised as
  reals; rounding and NaN are outside this embedding.
\<close>

datatype py_error =
    FileNotFoundError
  | FileExistsError
  | IsADirectoryError
  | NotADirectoryError
  | KeyError
  | IndexError
  | ValueError
  | OverflowError
  | UnicodeDecodeError
  | LibraryError string

type_synonym matrix = "real list list"
type_synonym int_matrix = "nat list list"

datatype ndarray = IntArray int_matrix | FloatArray matrix

text \<open>
  The two \<^verbatim>\<open>print\<close> calls of \<^verbatim>\<open>classify\<close>: \<open>PrintArray result\<close> is
  \<^verbatim>\<open>print(result)\<close>, and \<open>PrintPrediction label confidence\<close> is the line
  \<^verbatim>\<open>f"Predicted class: '{label}' with confidence {confidence:.2%}"\<close>, kept as its two
  interpolated values.
\<close>

datatype printed = PrintArray matrix | PrintPrediction string real

section \<open>Library calls made by classify\<close>

text \<open>
  A fitted Keras tokenizer maps one text to its sequence of word ids;
  \<^verbatim>\<open>texts_to_sequences\<close> does so for each text of a list.
\<close>

type_synonym tokenizer = "string \<Rightarrow> nat list"

definition texts_to_sequences :: "tokenizer \<Rightarrow> string list \<Rightarrow> nat list list" where
  "texts_to_sequences tok texts = map tok texts"

text \<open>
  \<^verbatim>\<open>keras.preprocessing.sequence.pad_sequences(sequences, maxlen, padding, truncating)\<close>
  with its defaults \<^verbatim>\<open>truncating="pre"\<close> and \<^verbatim>\<open>value=0\<close>: each row starts as
  \<open>maxlen\<close> zeros; a non-empty sequence is cut to \<^verbatim>\<open>s[-maxlen:]\<close> (or
  \<^verbatim>\<open>s[:maxlen]\<close>), converted to \<open>int32\<close> and written at the start (\<^verbatim>\<open>"post"\<close>) or
  at the end (\<^verbatim>\<open>"pre"\<close>) of its row. The conversion raises \<^verbatim>\<open>OverflowError\<close> for an id
  of \<open>2^31\<close> or more. Python's \<^verbatim>\<open>s[-0:]\<close> is the whole of \<open>s\<close>, which then does not fit
  a row of length 0 and raises.
\<close>

datatype pad_mode = Pre | Post

definition pad_row :: "nat \<Rightarrow> pad_mode \<Rightarrow> pad_mode \<Rightarrow> nat list \<Rightarrow> py_error + nat list" where
  "pad_row maxlen padding truncating s =
     (if s = [] then Inr (replicate maxlen 0)
      else
        let trunc = (case truncating of
                       Pre \<Rightarrow> (if maxlen = 0 then s else drop (length s - maxlen) s)
                     | Post \<Rightarrow> take maxlen s)
        in if list_ex (\<lambda>t. 2 ^ 31 \<le> t) trunc then Inl OverflowError
           else if maxlen < length trunc then Inl ValueError
           else (case padding of
                   Post \<Rightarrow> Inr (trunc @ replicate (maxlen - length trunc) 0)
                 | Pre \<Rightarrow> Inr (replicate (maxlen - length trunc) 0 @ trunc)))"

fun pad_rows :: "nat \<Rightarrow> pad_mode \<Rightarrow> pad_mode \<Rightarrow> nat list list \<Rightarrow> py_error + int_matrix" where
  "pad_rows maxlen padding truncating [] = Inr []"
| "pad_rows maxlen padding truncating (s # ss) =
     (case pad_row maxlen padding truncating s of
        Inl e \<Rightarrow> Inl e
      | Inr r \<Rightarrow> (case pad_rows maxlen padding truncating ss of
                    Inl e \<Rightarrow> Inl e
                  | Inr rs \<Rightarrow> Inr (r # rs)))"

definition pad_sequences :: "nat list list \<Rightarrow> nat \<Rightarrow> pad_mode \<Rightarrow> py_error + int_matrix" where
  "pad_sequences sequences maxlen padding = pad_rows maxlen padding Pre sequences"

text \<open>
  \<^verbatim>\<open>np.argmax(a)\<close> without an axis: the index, in the flattened array, of the first
  occurrence of the maximum; an empty array raises \<^verbatim>\<open>ValueError\<close>.
\<close>

fun argmax_loop :: "real list \<Rightarrow> nat \<Rightarrow> nat \<Rightarrow> real \<Rightarrow> nat" where
  "argmax_loop [] i best v = best"
| "argmax_loop (x # xs) i best v =
     (if v < x then argmax_loop xs (Suc i) i x else argmax_loop xs (Suc i) best v)"

definition np_argmax :: "matrix \<Rightarrow> py_error + nat" where
  "np_argmax a =
     (case concat a of
        [] \<Rightarrow> Inl ValueError
      | x # xs \<Rightarrow> Inr (argmax_loop xs 1 0 x))"

text \<open>Indexing with a non-negative index: out of range raises \<^verbatim>\<open>IndexError\<close>.\<close>

definition getitem :: "'a list \<Rightarrow> nat \<Rightarrow> py_error + 'a" where
  "getitem xs i = (if i < length xs then Inr (xs ! i) else Inl IndexError)"

section \<open>The classify callback\<close>

text \<open>
  \<^verbatim>\<open>
  def classify(text):
      encoded_example = tokenizer.texts_to_sequences([text])
      max_length = 40
      padded_example = pad_sequences(encoded_example, maxlen=max_length, padding="post")
      result = model.predict(padded_example)
      print(result)
      ix = np.argmax(result)
      print(f"Predicted class: '{labels[ix]}' with confidence {result[0][ix]:.2%}")
  \<close>
  The notebook globals \<open>tokenizer\<close>, \<open>model\<close> and \<open>labels\<close> are arguments. The forward
  pass \<^verbatim>\<open>model.predict\<close> belongs to the framework and is the parameter \<open>predict\<close>, which
  may raise. The result pairs what was printed with the outcome of the call.
\<close>

definition max_length :: nat where
  "max_length = 40"

definition padded_example :: "tokenizer \<Rightarrow> string \<Rightarrow> py_error + int_matrix" where
  "padded_example tokenizer text =
     (let encoded_example = texts_to_sequences tokenizer [text]
      in pad_sequences encoded_example max_length Post)"

definition classify ::
  "tokenizer \<Rightarrow> (int_matrix \<Rightarrow> py_error + matrix) \<Rightarrow> string list \<Rightarrow> string
     \<Rightarrow> printed list \<times> (py_error + unit)" where
  "classify tokenizer predict labels text =
     (case padded_example tokenizer text of
        Inl e \<Rightarrow> ([], Inl e)
      | Inr padded \<Rightarrow>
     (case predict padded of
        Inl e \<Rightarrow> ([], Inl e)
      | Inr result \<Rightarrow>
     (case np_argmax result of
        Inl e \<Rightarrow> ([PrintArray result], Inl e)
      | Inr ix \<Rightarrow>
     (case getitem labels ix of
        Inl e \<Rightarrow> ([PrintArray result], Inl e)
      | Inr label \<Rightarrow>
     (case getitem result 0 of
        Inl e \<Rightarrow> ([PrintArray result], Inl e)
      | Inr row \<Rightarrow>
     (case getitem row ix of
        Inl e \<Rightarrow> ([PrintArray result], Inl e)
      | Inr confidence \<Rightarrow>
          ([PrintArray result, PrintPrediction label confidence], Inr ())))))))"

section \<open>Loading the dataset\<close>

text \<open>
  Relative paths are compared by their components: \<^verbatim>\<open>"./data/train"\<close> and
  \<^verbatim>\<open>"data/train"\<close> name the same directory. The notebook uses no absolute path and no
  \<^verbatim>\<open>".."\<close> component. The working directory is the empty path and always exists.
\<close>

type_synonym path = "string list"

fun split_on :: "char \<Rightarrow> string \<Rightarrow> string list" where
  "split_on c [] = [[]]"
| "split_on c (x # xs) =
     (if x = c then [] # split_on c xs
      else (case split_on c xs of
              [] \<Rightarrow> [[x]]
            | w # ws \<Rightarrow> (x # w) # ws))"

definition normpath :: "string \<Rightarrow> path" where
  "normpath p = filter (\<lambda>c. c \<noteq> [] \<and> c \<noteq> ''.'') (split_on CHR ''/'' p)"

datatype file_content = TextFile string | NpyFile ndarray

record filesystem =
  dirs :: "path set"
  files :: "path \<rightharpoonup> file_content"

definition is_dir :: "filesystem \<Rightarrow> path \<Rightarrow> bool" where
  "is_dir fs p \<longleftrightarrow> p = [] \<or> p \<in> dirs fs"

text \<open>
  The non-empty prefixes of a path, the path itself last. Opening a path below a regular
  file raises \<^verbatim>\<open>NotADirectoryError\<close>.
\<close>

definition ancestors :: "path \<Rightarrow> path list" where
  "ancestors p = map (\<lambda>n. take n p) [1..<Suc (length p)]"

definition below_a_file :: "filesystem \<Rightarrow> path \<Rightarrow> bool" where
  "below_a_file fs p \<longleftrightarrow> list_ex (\<lambda>q. files fs q \<noteq> None) (butlast (ancestors p))"

text \<open>
  \<^verbatim>\<open>
  column_names = ["TITLE", "URL", "PUBLISHER", "CATEGORY", "STORY", "HOSTNAME", "TIMESTAMP"]
  df = pd.read_csv("data/newsCorpora.csv", names=column_names, header=None, delimiter="\t")
  \<close>
  The keyword arguments of the call are a record. \<open>header = None\<close> is Python's
  \<^verbatim>\<open>header=None\<close>; \<open>Some k\<close> would take line \<open>k\<close> as the header row. The delimiter is the
  one-character string holding a tab (code 9).
\<close>

record read_csv_args =
  filepath_or_buffer :: string
  names :: "string list"
  header :: "nat option"
  delimiter :: string

definition column_names :: "string list" where
  "column_names =
     [''TITLE'', ''URL'', ''PUBLISHER'', ''CATEGORY'', ''STORY'', ''HOSTNAME'', ''TIMESTAMP'']"

definition df_args :: read_csv_args where
  "df_args =
     \<lparr> filepath_or_buffer = ''data/newsCorpora.csv'',
       names = column_names,
       header = None,
       delimiter = [CHR 0x09] \<rparr>"

text \<open>
  A data frame is its column labels and its rows of cells. \<^verbatim>\<open>pd.read_csv\<close> opens the
  file, which raises \<^verbatim>\<open>NotADirectoryError\<close> below a regular file,
  \<^verbatim>\<open>IsADirectoryError\<close> for a directory and \<^verbatim>\<open>FileNotFoundError\<close> when nothing is
  there; a saved array is not text and fails to decode. Otherwise the library's tokenizer
  \<open>parse_rows\<close> (a parameter: quoting and malformed lines are pandas's business) cuts the
  text into rows of cells at the delimiter, the rows up to and including the header row are
  left out when there is one, and the columns are labelled with \<open>names\<close>.
\<close>

record dataframe =
  columns :: "string list"
  rows :: "string list list"

definition pd_read_csv ::
  "(string \<Rightarrow> string \<Rightarrow> py_error + string list list) \<Rightarrow> filesystem \<Rightarrow> read_csv_args
     \<Rightarrow> py_error + dataframe" where
  "pd_read_csv parse_rows fs args =
     (let p = normpath (filepath_or_buffer args)
      in if below_a_file fs p then Inl NotADirectoryError
         else if is_dir fs p then Inl IsADirectoryError
         else
           (case files fs p of
              None \<Rightarrow> Inl FileNotFoundError
            | Some (NpyFile a) \<Rightarrow> Inl UnicodeDecodeError
            | Some (TextFile content) \<Rightarrow>
                (case parse_rows (delimiter args) content of
                   Inl e \<Rightarrow> Inl e
                 | Inr rs \<Rightarrow>
                     Inr \<lparr> columns = names args,
                           rows = (case header args of
                                     None \<Rightarrow> rs
                                   | Some k \<Rightarrow> drop (Suc k) rs) \<rparr>)))"

definition load_df ::
  "(string \<Rightarrow> string \<Rightarrow> py_error + string list list) \<Rightarrow> filesystem \<Rightarrow> py_error + dataframe" where
  "load_df parse_rows fs = pd_read_csv parse_rows fs df_args"

text \<open>
  \<^verbatim>\<open>df[label]\<close>: the cells of the column with that label, \<^verbatim>\<open>KeyError\<close> when no column
  has it. A row shorter than the column's position has a missing (empty) cell there.
\<close>

definition index_of :: "'a list \<Rightarrow> 'a \<Rightarrow> nat" where
  "index_of xs x = length (takeWhile (\<lambda>y. y \<noteq> x) xs)"

definition get_column :: "dataframe \<Rightarrow> string \<Rightarrow> py_error + string list" where
  "get_column df label =
     (if label \<in> set (columns df)
      then Inr (map (\<lambda>r. if index_of (columns df) label < length r
                           then r ! index_of (columns df) label else [])
                 (rows df))
      else Inl KeyError)"

section \<open>Label encoding\<close>

text \<open>
  \<^verbatim>\<open>encoded_y, labels = util.preprocessing.dummy_encode_labels(df, "CATEGORY")\<close>

  The notebook only calls this function; \<^verbatim>\<open>util/preprocessing.py\<close>, which defines it,
  is not among the sources.
\<close>

definition one_hot :: "nat \<Rightarrow> nat \<Rightarrow> real list" where
  "one_hot n k = map (\<lambda>j. if j = k then 1 else 0) [0..<n]"

text \<open>
  Modelled from the spec: \<^verbatim>\<open>dummy_encode_labels\<close> of the missing
  \<^verbatim>\<open>util/preprocessing.py\<close>. The spec's data model has "categorical labels" and
  "one-hot encoded label vectors": the labels are the distinct values of the column, in
  sorted order, and each row's label is encoded as the one-hot vector (\<open>one_hot\<close>, above)
  of its position among them.
\<close>

definition dummy_encode_labels :: "dataframe \<Rightarrow> string \<Rightarrow> py_error + (matrix \<times> string list)" where
  "dummy_encode_labels df label =
     (case get_column df label of
        Inl e \<Rightarrow> Inl e
      | Inr col \<Rightarrow>
          (let labels = sort (remdups col)
           in Inr (map (\<lambda>c. one_hot (length labels) (index_of labels c)) col, labels)))"

section \<open>Saving arrays\<close>

text \<open>
  \<^verbatim>\<open>np.save(file, arr)\<close> with a string \<open>file\<close>: numpy appends \<^verbatim>\<open>.npy\<close> to a name that
  does not end with it, and writes the array there in its binary format, replacing what
  the file held. Opening the file for writing raises \<^verbatim>\<open>NotADirectoryError\<close> below a
  regular file, \<^verbatim>\<open>IsADirectoryError\<close> when the name is that of a directory, and
  \<^verbatim>\<open>FileNotFoundError\<close> when the parent directory does not exist.
\<close>

definition endswith :: "string \<Rightarrow> string \<Rightarrow> bool" where
  "endswith s suffix \<longleftrightarrow>
     length suffix \<le> length s \<and> drop (length s - length suffix) s = suffix"

definition npy_name :: "string \<Rightarrow> string" where
  "npy_name file = (if endswith file ''.npy'' then file else file @ ''.npy'')"

definition np_save :: "filesystem \<Rightarrow> string \<Rightarrow> ndarray \<Rightarrow> py_error + filesystem" where
  "np_save fs file arr =
     (let p = normpath (npy_name file)
      in if below_a_file fs p then Inl NotADirectoryError
         else if is_dir fs p then Inl IsADirectoryError
         else if \<not> is_dir fs (butlast p) then Inl FileNotFoundError
         else Inr (fs\<lparr>files := (files fs)(p \<mapsto> NpyFile arr)\<rparr>))"

text \<open>
  \<^verbatim>\<open>os.makedirs(name, exist_ok=True)\<close>: creates the directory and every missing
  parent; an existing directory is accepted. A file of that name raises
  \<^verbatim>\<open>FileExistsError\<close>, a file where a parent should be raises
  \<^verbatim>\<open>NotADirectoryError\<close>.
\<close>

definition os_makedirs :: "filesystem \<Rightarrow> string \<Rightarrow> py_error + filesystem" where
  "os_makedirs fs name =
     (let p = normpath name
      in if files fs p \<noteq> None then Inl FileExistsError
         else if below_a_file fs p then Inl NotADirectoryError
         else Inr (fs\<lparr>dirs := dirs fs \<union> set (ancestors p)\<rparr>))"

text \<open>
  \<^verbatim>\<open>
  np.save(file="./data/embeddings/docs-embedding-matrix", arr=embedding_matrix,
          allow_pickle=False)
  vocab_size=embedding_matrix.shape[0]
  \<close>
\<close>

definition save_embedding_matrix :: "filesystem \<Rightarrow> matrix \<Rightarrow> py_error + filesystem" where
  "save_embedding_matrix fs embedding_matrix =
     np_save fs ''./data/embeddings/docs-embedding-matrix'' (FloatArray embedding_matrix)"

definition vocab_size :: "matrix \<Rightarrow> nat" where
  "vocab_size embedding_matrix = length embedding_matrix"

text \<open>
  \<^verbatim>\<open>
  os.makedirs("./data/train", exist_ok=True)
  np.save("./data/train/train_X.npy", X_train)
  np.save("./data/train/train_Y.npy", y_train)
  os.makedirs("./data/test", exist_ok=True)
  np.save("./data/test/test_X.npy", X_test)
  np.save("./data/test/test_Y.npy", y_test)
  \<close>
  The calls run in order and the first exception ends the cell.
\<close>

definition and_then :: "py_error + 'a \<Rightarrow> ('a \<Rightarrow> py_error + 'b) \<Rightarrow> py_error + 'b" where
  "and_then r f = (case r of Inl e \<Rightarrow> Inl e | Inr x \<Rightarrow> f x)"

definition save_splits ::
  "filesystem \<Rightarrow> int_matrix \<Rightarrow> int_matrix \<Rightarrow> matrix \<Rightarrow> matrix \<Rightarrow> py_error + filesystem" where
  "save_splits fs X_train X_test y_train y_test =
     and_then (os_makedirs fs ''./data/train'') (\<lambda>fs1.
     and_then (np_save fs1 ''./data/train/train_X.npy'' (IntArray X_train)) (\<lambda>fs2.
     and_then (np_save fs2 ''./data/train/train_Y.npy'' (FloatArray y_train)) (\<lambda>fs3.
     and_then (os_makedirs fs3 ''./data/test'') (\<lambda>fs4.
     and_then (np_save fs4 ''./data/test/test_X.npy'' (IntArray X_test)) (\<lambda>fs5.
     np_save fs5 ''./data/test/test_Y.npy'' (FloatArray y_test))))))"

definition persist_arrays ::
  "filesystem \<Rightarrow> matrix \<Rightarrow> int_matrix \<Rightarrow> int_matrix \<Rightarrow> matrix \<Rightarrow> matrix
     \<Rightarrow> py_error + filesystem" where
  \<comment> \<open>The two saving cells in notebook order.\<close>
  "persist_arrays fs embedding_matrix X_train X_test y_train y_test =
     and_then (save_embedding_matrix fs embedding_matrix) (\<lambda>fs1.
     save_splits fs1 X_train X_test y_train y_test)"

definition saved_at :: "py_error + filesystem \<Rightarrow> string \<Rightarrow> py_error + file_content option" where
  \<comment> \<open>What is stored under a file name once a cell has run.\<close>
  "saved_at r file = and_then r (\<lambda>fs. Inr (files fs (normpath file)))"

text \<open>
  A working directory as the notebook finds it before the saving cells: the dataset has
  been downloaded (one line of it here) and the embeddings directory exists.
\<close>

definition workspace_fs :: filesystem where
  "workspace_fs =
     \<lparr> dirs = {[''data''], [''data'', ''embeddings'']},
       files = [[''data'', ''newsCorpora.csv''] \<mapsto>
                  TextFile (''Fed holds rates'' @ [CHR 0x09] @ ''http://a.example/1''
                            @ [CHR 0x09] @ ''Reuters'' @ [CHR 0x09] @ ''b''
                            @ [CHR 0x09] @ ''dXyZ'' @ [CHR 0x09] @ ''a.example''
                            @ [CHR 0x09] @ ''1394470370698'')] \<rparr>"

definition workspace_saved :: filesystem where
  \<comment> \<open>The example working directory after the saving cells, with small example arrays.\<close>
  "workspace_saved =
     \<lparr> dirs = {[''data''], [''data'', ''embeddings''], [''data'', ''train''], [''data'', ''test'']},
       files = (files workspace_fs)
           ([''data'', ''embeddings'', ''docs-embedding-matrix.npy'']
              \<mapsto> NpyFile (FloatArray [[1]]),
            [''data'', ''train'', ''train_X.npy''] \<mapsto> NpyFile (IntArray [[1]]),
            [''data'', ''train'', ''train_Y.npy''] \<mapsto> NpyFile (FloatArray [[1, 0]]),
            [''data'', ''test'', ''test_X.npy''] \<mapsto> NpyFile (IntArray [[2]]),
            [''data'', ''test'', ''test_Y.npy''] \<mapsto> NpyFile (FloatArray [[0, 1]])) \<rparr>"

section \<open>Train and test split\<close>

text \<open>
  \<^verbatim>\<open>
  X_train, X_test, y_train, y_test = train_test_split(
      padded_docs, encoded_y, test_size=0.2, random_state=42)
  \<close>
  scikit-learn's \<^verbatim>\<open>train_test_split\<close> with a fractional \<open>test_size\<close>: the arrays must
  have the same number of rows; \<open>n_test\<close> is \<open>test_size * n_samples\<close> rounded up and
  \<open>n_train\<close> the rest, which must not be empty; the rows are taken at the indices of
  \<^verbatim>\<open>RandomState(random_state).permutation(n_samples)\<close>, the first \<open>n_test\<close> of them for
  the test set and the following \<open>n_train\<close> for the training set. The generator is the
  parameter \<open>permutation\<close>, a function of the seed and the length. The product
  \<open>test_size * n_samples\<close> is taken exactly.
\<close>

definition train_test_split ::
  "(nat \<Rightarrow> nat \<Rightarrow> nat list) \<Rightarrow> 'a list \<Rightarrow> 'b list \<Rightarrow> rat \<Rightarrow> nat
     \<Rightarrow> py_error + ('a list \<times> 'a list \<times> 'b list \<times> 'b list)" where
  "train_test_split permutation X y test_size random_state =
     (let n_samples = length X
      in if length y \<noteq> n_samples then Inl ValueError
         else if test_size \<le> 0 \<or> 1 \<le> test_size then Inl ValueError
         else
           let n_test = nat \<lceil>test_size * of_nat n_samples\<rceil>;
               n_train = n_samples - n_test
           in if n_train = 0 then Inl ValueError
              else
                let p = permutation random_state n_samples;
                    ind_test = take n_test p;
                    ind_train = take n_train (drop n_test p)
                in if list_ex (\<lambda>i. n_samples \<le> i) (ind_train @ ind_test) then Inl IndexError
                   else Inr (map ((!) X) ind_train, map ((!) X) ind_test,
                             map ((!) y) ind_train, map ((!) y) ind_test))"

definition split_train_test ::
  "(nat \<Rightarrow> nat \<Rightarrow> nat list) \<Rightarrow> int_matrix \<Rightarrow> matrix
     \<Rightarrow> py_error + (int_matrix \<times> int_matrix \<times> matrix \<times> matrix)" where
  "split_train_test permutation padded_docs encoded_y =
     train_test_split permutation padded_docs encoded_y (2 / 10) 42"

section \<open>The model\<close>

text \<open>
  \<^verbatim>\<open>
  num_classes=len(labels)
  model = Sequential()
  model.add(Embedding(vocab_size, 100, weights=[embedding_matrix], input_length=40,
                      trainable=False, name="embed"))
  model.add(Conv1D(filters=128, kernel_size=3, activation="relu", name="conv_1"))
  model.add(MaxPooling1D(pool_size=5, name="maxpool_1"))
  model.add(Flatten(name="flat_1"))
  model.add(Dropout(0.3, name="dropout_1"))
  model.add(Dense(128, activation="relu", name="dense_1"))
  model.add(Dense(num_classes, activation="softmax", name="out_1"))
  optimizer = tf.keras.optimizers.RMSprop(learning_rate=0.001)
  model.compile(optimizer=optimizer, loss="binary_crossentropy", metrics=["acc"])
  \<close>
  A layer is the constructor call that made it, with its arguments in the order
  written below. What the layers compute is the framework's.
\<close>

datatype activation = Relu | Softmax

datatype layer =
    Embedding nat nat "matrix list" nat bool string
      \<comment> \<open>input_dim, output_dim, weights, input_length, trainable, name\<close>
  | Conv1D nat nat activation string
      \<comment> \<open>filters, kernel_size, activation, name\<close>
  | MaxPooling1D nat string
      \<comment> \<open>pool_size, name\<close>
  | Flatten string
  | Dropout rat string
      \<comment> \<open>rate, name\<close>
  | Dense nat activation string
      \<comment> \<open>units, activation, name\<close>

definition Sequential :: "layer list" where
  "Sequential = []"

definition add :: "layer list \<Rightarrow> layer \<Rightarrow> layer list" where
  "add m l = m @ [l]"

definition num_classes :: "string list \<Rightarrow> nat" where
  "num_classes labels = length labels"

definition model_layers :: "matrix \<Rightarrow> string list \<Rightarrow> layer list" where
  "model_layers embedding_matrix labels =
     (let m0 = Sequential;
          m1 = add m0 (Embedding (vocab_size embedding_matrix) 100 [embedding_matrix] 40 False
                         ''embed'');
          m2 = add m1 (Conv1D 128 3 Relu ''conv_1'');
          m3 = add m2 (MaxPooling1D 5 ''maxpool_1'');
          m4 = add m3 (Flatten ''flat_1'');
          m5 = add m4 (Dropout (3 / 10) ''dropout_1'');
          m6 = add m5 (Dense 128 Relu ''dense_1'');
          m7 = add m6 (Dense (num_classes labels) Softmax ''out_1'')
      in m7)"

datatype optimizer = RMSprop rat

record compiled_model =
  layers :: "layer list"
  optimizer :: optimizer
  loss :: string
  metrics :: "string list"

definition model :: "matrix \<Rightarrow> string list \<Rightarrow> compiled_model" where
  "model embedding_matrix labels =
     \<lparr> layers = model_layers embedding_matrix labels,
       optimizer = RMSprop (1 / 1000),
       loss = ''binary_crossentropy'',
       metrics = [''acc''] \<rparr>"

fun layer_name :: "layer \<Rightarrow> string" where
  "layer_name (Embedding input_dim output_dim ws input_length tr name) = name"
| "layer_name (Conv1D fs k a name) = name"
| "layer_name (MaxPooling1D p name) = name"
| "layer_name (Flatten name) = name"
| "layer_name (Dropout r name) = name"
| "layer_name (Dense u a name) = name"

text \<open>Every Keras layer has a \<open>trainable\<close> attribute, \<open>True\<close> unless given.\<close>

fun layer_trainable :: "layer \<Rightarrow> bool" where
  "layer_trainable (Embedding input_dim output_dim ws input_length tr name) = tr"
| "layer_trainable l = True"

fun output_units :: "layer \<Rightarrow> nat option" where
  "output_units (Dense u a name) = Some u"
| "output_units l = None"

section \<open>Training and evaluation\<close>

text \<open>
  The weights of a model are the weight arrays of each layer, by layer name. The
  embedding layer starts from the arrays it was given; the other layers from the
  framework's initialiser \<open>init\<close>.
\<close>

type_synonym weights = "string \<Rightarrow> matrix list"

type_synonym example = "nat list \<times> real list"

fun initial_weights :: "(string \<Rightarrow> matrix list) \<Rightarrow> layer list \<Rightarrow> weights" where
  "initial_weights init [] = init"
| "initial_weights init (Embedding input_dim output_dim ws input_length tr name # ls) =
     (initial_weights init ls)(name := ws)"
| "initial_weights init (l # ls) = initial_weights init ls"

text \<open>
  The loss named \<^verbatim>\<open>"binary_crossentropy"\<close> is, for one example, the mean over the last
  axis of the element-wise binary cross-entropy of target and prediction. The
  element-wise term (logarithms and clipping, in floating point) is the parameter
  \<open>elementwise\<close>. Target and prediction have the same length. The losses that Keras
  keeps under other names are the parameter \<open>other_losses\<close>. The loss of a compiled model
  is the one named in \<^verbatim>\<open>compile\<close>; the loss of a batch is the mean of the losses of its
  examples, the prediction for a document being \<open>f\<close> of it.
\<close>

definition binary_crossentropy :: "(real \<Rightarrow> real \<Rightarrow> real) \<Rightarrow> real list \<Rightarrow> real list \<Rightarrow> real" where
  "binary_crossentropy elementwise y_true y_pred =
     sum_list (map (\<lambda>(t, p). elementwise t p) (zip y_true y_pred)) / real (length y_pred)"

definition compiled_loss ::
  "(real \<Rightarrow> real \<Rightarrow> real) \<Rightarrow> (string \<Rightarrow> real list \<Rightarrow> real list \<Rightarrow> real) \<Rightarrow> compiled_model
     \<Rightarrow> real list \<Rightarrow> real list \<Rightarrow> real" where
  "compiled_loss elementwise other_losses m =
     (if loss m = ''binary_crossentropy'' then binary_crossentropy elementwise
      else other_losses (loss m))"

definition batch_loss ::
  "(real list \<Rightarrow> real list \<Rightarrow> real) \<Rightarrow> (nat list \<Rightarrow> real list) \<Rightarrow> example list \<Rightarrow> real" where
  "batch_loss per_example f batch =
     sum_list (map (\<lambda>(x, t). per_example t (f x)) batch) / real (length batch)"

text \<open>
  \<^verbatim>\<open>model.fit(X_train, y_train, batch_size=16, epochs=5, verbose=1)\<close>

  Training runs \<open>epochs\<close> passes over the data, each in the order chosen by the framework
  (\<open>shuffle\<close>), in batches of \<open>batch_size\<close>. One step asks the model's optimizer to decrease
  the loss of the batch, as a function of the weights: \<open>minimize\<close> is the framework's
  optimizer step, from an objective and the current weights to new weights, and
  \<open>forward training v\<close> is its forward pass under the weights \<open>v\<close>, with Keras's
  \<open>training\<close> flag. The step stores the new weights for the layers that are trainable:
  Keras leaves the weights of a layer with \<^verbatim>\<open>trainable=False\<close> out of the update.
\<close>

definition train_step ::
  "layer list \<Rightarrow> ('b \<Rightarrow> weights \<Rightarrow> weights) \<Rightarrow> 'b \<Rightarrow> weights \<Rightarrow> weights" where
  "train_step ls update batch w =
     (\<lambda>name. if list_ex (\<lambda>l. layer_name l = name \<and> layer_trainable l) ls
              then update batch w name else w name)"

definition batches_of :: "nat \<Rightarrow> 'a list \<Rightarrow> 'a list list" where
  "batches_of k xs = map (\<lambda>i. take k (drop (i * k) xs)) [0..<(length xs + k - 1) div k]"

definition fit ::
  "compiled_model \<Rightarrow> (real \<Rightarrow> real \<Rightarrow> real) \<Rightarrow> (string \<Rightarrow> real list \<Rightarrow> real list \<Rightarrow> real)
     \<Rightarrow> (optimizer \<Rightarrow> (weights \<Rightarrow> real) \<Rightarrow> weights \<Rightarrow> weights)
     \<Rightarrow> (bool \<Rightarrow> weights \<Rightarrow> nat list \<Rightarrow> real list)
     \<Rightarrow> (nat \<Rightarrow> example list \<Rightarrow> example list)
     \<Rightarrow> int_matrix \<Rightarrow> matrix \<Rightarrow> nat \<Rightarrow> nat \<Rightarrow> weights \<Rightarrow> weights" where
  "fit m elementwise other_losses minimize forward shuffle X y batch_size epochs w =
     fold (\<lambda>epoch.
             fold (train_step (layers m)
                     (\<lambda>batch. minimize (optimizer m)
                        (\<lambda>v. batch_loss (compiled_loss elementwise other_losses m)
                                (forward True v) batch)))
                  (batches_of batch_size (shuffle epoch (zip X y))))
          [0..<epochs] w"

definition fit_model ::
  "matrix \<Rightarrow> string list \<Rightarrow> (string \<Rightarrow> matrix list)
     \<Rightarrow> (real \<Rightarrow> real \<Rightarrow> real) \<Rightarrow> (string \<Rightarrow> real list \<Rightarrow> real list \<Rightarrow> real)
     \<Rightarrow> (optimizer \<Rightarrow> (weights \<Rightarrow> real) \<Rightarrow> weights \<Rightarrow> weights)
     \<Rightarrow> (bool \<Rightarrow> weights \<Rightarrow> nat list \<Rightarrow> real list)
     \<Rightarrow> (nat \<Rightarrow> example list \<Rightarrow> example list)
     \<Rightarrow> int_matrix \<Rightarrow> matrix \<Rightarrow> weights" where
  "fit_model embedding_matrix labels init elementwise other_losses minimize forward shuffle
     X_train y_train =
     fit (model embedding_matrix labels) elementwise other_losses minimize forward shuffle
       X_train y_train 16 5
       (initial_weights init (layers (model embedding_matrix labels)))"


section \<open>Properties of padding and argmax\<close>

lemma pad_row_post_pre:
  assumes "0 < maxlen" and "\<forall>t \<in> set s. t < 2 ^ 31"
  shows "pad_row maxlen Post Pre s =
     Inr (drop (length s - maxlen) s @ replicate (maxlen - length s) 0)"
proof (cases "s = []")
  case True
  then show ?thesis by (simp add: pad_row_def)
next
  case False
  have "\<forall>t \<in> set (drop (length s - maxlen) s). t < 2 ^ 31"
    using assms(2) by (auto dest: in_set_dropD)
  then have small: "\<not> list_ex (\<lambda>t. 2 ^ 31 \<le> t) (drop (length s - maxlen) s)"
    by (auto simp: list_ex_iff)
  show ?thesis
    using False assms(1) small by (auto simp: pad_row_def Let_def min_def)
qed

lemma padded_example_eq:
  assumes "\<forall>t \<in> set (tok text). t < 2 ^ 31"
  shows "padded_example tok text =
     Inr [drop (length (tok text) - 40) (tok text) @ replicate (40 - length (tok text)) 0]"
  by (simp add: padded_example_def texts_to_sequences_def pad_sequences_def max_length_def
      pad_row_post_pre[OF _ assms])

lemma pad_row_Inr:
  assumes "0 < maxlen" and "pad_row maxlen Post Pre s = Inr row"
  shows "row = drop (length s - maxlen) s @ replicate (maxlen - length s) 0"
  using assms by (cases "s = []") (auto simp: pad_row_def Let_def min_def split: if_splits)

lemma padded_example_Inr:
  assumes "padded_example tok text = Inr padded"
  shows "padded =
     [drop (length (tok text) - 40) (tok text) @ replicate (40 - length (tok text)) 0]"
proof -
  from assms obtain row where r: "pad_row 40 Post Pre (tok text) = Inr row" and p: "padded = [row]"
    by (auto simp: padded_example_def texts_to_sequences_def pad_sequences_def max_length_def
        split: sum.splits)
  from pad_row_Inr[OF _ r] p show ?thesis by simp
qed

lemma padded_row_length:
  "length (drop (length (s :: nat list) - 40) s @ replicate (40 - length s) 0) = 40"
  by simp

lemma argmax_loop_spec:
  assumes "best < i" "length pre = i" "pre ! best = v"
    "\<forall>j<i. pre ! j \<le> v" "\<forall>j<best. pre ! j < v"
  shows "argmax_loop xs i best v < length (pre @ xs)
       \<and> (\<forall>j < length (pre @ xs). (pre @ xs) ! j \<le> (pre @ xs) ! argmax_loop xs i best v)
       \<and> (\<forall>j < argmax_loop xs i best v. (pre @ xs) ! j < (pre @ xs) ! argmax_loop xs i best v)"
  using assms
proof (induction xs arbitrary: i best v pre)
  case Nil
  then show ?case by auto
next
  case (Cons x xs)
  let ?pre = "pre @ [x]"
  have len: "length ?pre = Suc i" using Cons.prems by simp
  show ?case
  proof (cases "v < x")
    case True
    have a: "i < Suc i" by simp
    have b: "?pre ! i = x" using Cons.prems by (simp add: nth_append)
    have c: "\<forall>j<Suc i. ?pre ! j \<le> x"
      using Cons.prems True by (auto simp: nth_append less_Suc_eq)
    have d: "\<forall>j<i. ?pre ! j < x"
      using Cons.prems True by (auto simp: nth_append)
    from Cons.IH[OF a len b c d] True show ?thesis by simp
  next
    case False
    have a: "best < Suc i" using Cons.prems by simp
    have b: "?pre ! best = v" using Cons.prems by (simp add: nth_append)
    have c: "\<forall>j<Suc i. ?pre ! j \<le> v"
      using Cons.prems False by (auto simp: nth_append less_Suc_eq)
    have d: "\<forall>j<best. ?pre ! j < v"
      using Cons.prems by (auto simp: nth_append)
    from Cons.IH[OF a len b c d] False show ?thesis by simp
  qed
qed

lemma np_argmax_row:
  assumes "row \<noteq> []"
  shows "\<exists>ix. np_argmax [row] = Inr ix \<and> ix < length row
           \<and> (\<forall>j < length row. row ! j \<le> row ! ix)
           \<and> (\<forall>j < ix. row ! j < row ! ix)"
proof -
  from assms obtain x xs where row: "row = x # xs" by (cases row) auto
  have "argmax_loop xs 1 0 x < length ([x] @ xs)
       \<and> (\<forall>j < length ([x] @ xs). ([x] @ xs) ! j \<le> ([x] @ xs) ! argmax_loop xs 1 0 x)
       \<and> (\<forall>j < argmax_loop xs 1 0 x. ([x] @ xs) ! j < ([x] @ xs) ! argmax_loop xs 1 0 x)"
    by (rule argmax_loop_spec) auto
  then show ?thesis by (simp add: np_argmax_def row)
qed

lemma short_headline_padded:
  "padded_example (\<lambda>t. [5, 9, 2]) ''Markets rally'' = Inr [[5, 9, 2] @ replicate 37 0]"
  by (simp add: padded_example_eq)

section \<open>Properties of the frozen embedding layer\<close>

lemma train_step_frozen:
  "\<not> list_ex (\<lambda>l. layer_name l = name \<and> layer_trainable l) ls \<Longrightarrow>
   train_step ls update batch w name = w name"
  by (simp add: train_step_def)

lemma fold_train_step_frozen:
  "\<not> list_ex (\<lambda>l. layer_name l = name \<and> layer_trainable l) ls \<Longrightarrow>
   fold (train_step ls update) batches w name = w name"
  by (induction batches arbitrary: w) (simp_all add: train_step_frozen)

lemma fit_frozen:
  assumes "\<not> list_ex (\<lambda>l. layer_name l = name \<and> layer_trainable l) (layers m)"
  shows "fit m elementwise other_losses minimize forward shuffle X y batch_size epochs w name
           = w name"
proof -
  have "fold (\<lambda>epoch. fold (train_step (layers m) update)
                  (batches_of batch_size (shuffle epoch (zip X y)))) es w name = w name"
    for es and update :: "example list \<Rightarrow> weights \<Rightarrow> weights"
    by (induction es arbitrary: w) (simp_all add: fold_train_step_frozen[OF assms])
  then show ?thesis by (simp add: fit_def)
qed

section \<open>Properties of the split\<close>

lemma n_test_fifth: "nat \<lceil>(2 / 10 :: rat) * of_nat n\<rceil> = (n + 4) div 5"
proof -
  have "(2 / 10 :: rat) * of_nat n = of_int (int n) / of_int 5" by simp
  then have "\<lceil>(2 / 10 :: rat) * of_nat n\<rceil> = - ((- int n) div 5)"
    by (simp only: ceiling_divide_eq_div)
  then show ?thesis by linarith
qed

lemma split_indices:
  assumes "mset p = mset [0..<n]" "k \<le> n"
  shows "mset (take (n - k) (drop k p) @ take k p) = mset [0..<n]"
    and "\<not> list_ex (\<lambda>i. n \<le> i) (take (n - k) (drop k p) @ take k p)"
proof -
  have len: "length p = n" using assms(1) by (metis length_upt mset_eq_length minus_nat.diff_0)
  have "take (n - k) (drop k p) = drop k p" using len by simp
  then have "mset (take (n - k) (drop k p) @ take k p) = mset (take k p @ drop k p)"
    by (simp only: mset_append add.commute)
  then show 1: "mset (take (n - k) (drop k p) @ take k p) = mset [0..<n]"
    using assms(1) by simp
  have "set (take (n - k) (drop k p) @ take k p) = set [0..<n]"
    using 1 by (rule mset_eq_setD)
  then show "\<not> list_ex (\<lambda>i. n \<le> i) (take (n - k) (drop k p) @ take k p)"
    by (auto simp: list_ex_iff)
qed

lemma mset_rows_at:
  assumes "mset is = mset [0..<length xs]"
  shows "mset (map ((!) xs) is) = mset xs"
proof -
  have "mset (map ((!) xs) is) = image_mset ((!) xs) (mset is)" by simp
  also have "\<dots> = image_mset ((!) xs) (mset [0..<length xs])" by (simp only: assms)
  also have "\<dots> = mset (map ((!) xs) [0..<length xs])" by simp
  also have "\<dots> = mset xs" by (simp only: map_nth)
  finally show ?thesis .
qed

lemma zip_rows_at:
  assumes "\<forall>i \<in> set is. i < length xs" "length ys = length xs"
  shows "zip (map ((!) xs) is) (map ((!) ys) is) = map ((!) (zip xs ys)) is"
  using assms by (induction "is") auto

lemma rows_at_partition:
  assumes idx: "mset (tr @ te) = mset [0..<length X]" and len: "length y = length X"
  shows "mset (map ((!) X) tr @ map ((!) X) te) = mset X"
    and "mset (map ((!) y) tr @ map ((!) y) te) = mset y"
    and "mset (zip (map ((!) X) tr) (map ((!) y) tr) @ zip (map ((!) X) te) (map ((!) y) te))
           = mset (zip X y)"
proof -
  have "mset (map ((!) X) (tr @ te)) = mset X" by (rule mset_rows_at[OF idx])
  then show "mset (map ((!) X) tr @ map ((!) X) te) = mset X" by (simp only: map_append)
  have idy: "mset (tr @ te) = mset [0..<length y]" by (simp only: idx len)
  have "mset (map ((!) y) (tr @ te)) = mset y" by (rule mset_rows_at[OF idy])
  then show "mset (map ((!) y) tr @ map ((!) y) te) = mset y" by (simp only: map_append)
  have "set (tr @ te) = set [0..<length X]" using idx by (rule mset_eq_setD)
  then have bound: "\<forall>i \<in> set (tr @ te). i < length X" by simp
  have btr: "\<forall>i \<in> set tr. i < length X" and bte: "\<forall>i \<in> set te. i < length X"
    using bound by simp_all
  have z1: "zip (map ((!) X) tr) (map ((!) y) tr) = map ((!) (zip X y)) tr"
    by (rule zip_rows_at[OF btr len])
  have z2: "zip (map ((!) X) te) (map ((!) y) te) = map ((!) (zip X y)) te"
    by (rule zip_rows_at[OF bte len])
  have lz: "length (zip X y) = length X" using len by simp
  have idz: "mset (tr @ te) = mset [0..<length (zip X y)]" by (simp only: idx lz)
  have "mset (map ((!) (zip X y)) (tr @ te)) = mset (zip X y)" by (rule mset_rows_at[OF idz])
  then show "mset (zip (map ((!) X) tr) (map ((!) y) tr) @ zip (map ((!) X) te) (map ((!) y) te))
           = mset (zip X y)"
    by (simp only: z1 z2 map_append)
qed

lemma train_test_split_result:
  assumes "length y = length X"
    and "n_test = nat \<lceil>(2 / 10 :: rat) * of_nat (length X)\<rceil>"
    and "length X - n_test \<noteq> 0"
    and "\<not> list_ex (\<lambda>i. length X \<le> i)
            (take (length X - n_test) (drop n_test (permutation 42 (length X)))
             @ take n_test (permutation 42 (length X)))"
  shows "split_train_test permutation X y =
      Inr (map ((!) X) (take (length X - n_test) (drop n_test (permutation 42 (length X)))),
           map ((!) X) (take n_test (permutation 42 (length X))),
           map ((!) y) (take (length X - n_test) (drop n_test (permutation 42 (length X)))),
           map ((!) y) (take n_test (permutation 42 (length X))))"
proof -
  have ts: "\<not> ((2 / 10 :: rat) \<le> 0 \<or> 1 \<le> (2 / 10 :: rat))" by simp
  show ?thesis
    unfolding split_train_test_def train_test_split_def Let_def
    unfolding assms(2)[symmetric]
    by (simp only: assms(1,3,4) ts if_False if_True refl not_True_eq_False not_not)
qed

section \<open>Properties of label encoding\<close>

lemma index_of_less: "x \<in> set xs \<Longrightarrow> index_of xs x < length xs"
  by (induction xs) (auto simp: index_of_def)

lemma one_hot_length: "length (one_hot n k) = n"
  by (simp add: one_hot_def)

lemma one_hot_nth: "j < n \<Longrightarrow> one_hot n k ! j = (if j = k then 1 else 0)"
  by (simp add: one_hot_def)

lemma labels_of_four:
  assumes "set col = {''b'', ''e'', ''m'', ''t''}"
  shows "sort (remdups col) = [''b'', ''e'', ''m'', ''t'']"
proof -
  have "sort (remdups col) = sorted_list_of_set (set col)"
    by (rule sorted_list_of_set_sort_remdups[symmetric])
  also have "\<dots> = sorted_list_of_set {''b'', ''e'', ''m'', ''t''}" by (simp only: assms)
  also have "\<dots> = [''b'', ''e'', ''m'', ''t'']" by simp
  finally show ?thesis .
qed

lemma out_layer_units:
  "output_units (last (layers (model embedding_matrix labels))) = Some (num_classes labels)"
  by (simp add: model_def model_layers_def Sequential_def add_def)

section \<open>Properties of saving\<close>

lemma and_then_Inr: "and_then r f = Inr x \<Longrightarrow> \<exists>v. r = Inr v \<and> f v = Inr x"
  by (cases r) (simp_all add: and_then_def)

lemma np_save_Inr:
  "np_save fs file arr = Inr fs' \<Longrightarrow>
   fs' = fs\<lparr>files := (files fs)(normpath (npy_name file) \<mapsto> NpyFile arr)\<rparr>"
  by (simp add: np_save_def Let_def split: if_splits)

lemma os_makedirs_Inr:
  "os_makedirs fs name = Inr fs' \<Longrightarrow>
   fs' = fs\<lparr>dirs := dirs fs \<union> set (ancestors (normpath name))\<rparr>"
  by (simp add: os_makedirs_def Let_def split: if_splits)

lemma saved_paths:
  "normpath (npy_name ''./data/embeddings/docs-embedding-matrix'')
     = [''data'', ''embeddings'', ''docs-embedding-matrix.npy'']"
  "normpath (npy_name ''./data/train/train_X.npy'') = [''data'', ''train'', ''train_X.npy'']"
  "normpath (npy_name ''./data/train/train_Y.npy'') = [''data'', ''train'', ''train_Y.npy'']"
  "normpath (npy_name ''./data/test/test_X.npy'') = [''data'', ''test'', ''test_X.npy'']"
  "normpath (npy_name ''./data/test/test_Y.npy'') = [''data'', ''test'', ''test_Y.npy'']"
  by (simp_all add: normpath_def npy_name_def endswith_def)

lemma made_dirs:
  "set (ancestors (normpath ''./data/train'')) = {[''data''], [''data'', ''train'']}"
  "set (ancestors (normpath ''./data/test'')) = {[''data''], [''data'', ''test'']}"
  by (simp_all add: normpath_def ancestors_def upt_rec)

lemma persist_workspace:
  "persist_arrays workspace_fs [[1]] [[1]] [[2]] [[1, 0]] [[0, 1]] = Inr workspace_saved"
  by (simp add: persist_arrays_def save_embedding_matrix_def save_splits_def and_then_def
      np_save_def os_makedirs_def workspace_fs_def workspace_saved_def is_dir_def
      below_a_file_def Let_def
      normpath_def npy_name_def endswith_def ancestors_def upt_rec insert_commute)

lemma normpath_csv: "normpath ''data/newsCorpora.csv'' = [''data'', ''newsCorpora.csv'']"
  by (simp add: normpath_def)

section \<open>Properties of the loss\<close>


section \<open>Claims\<close>

text \<open>
  C1. For every input string, when the framework's forward pass returns one row of class
  probabilities (at most one per label), \<open>classify\<close> prints that result and then one
  prediction line: the label at \<open>ix = np.argmax(result)\<close> and, as confidence, the
  probability at the same index \<open>ix\<close>, which is the first occurrence of the largest
  probability.
\<close>

theorem classify_prints_argmax:
  assumes "padded_example tokenizer text = Inr padded"
    and "predict padded = Inr [row]"
    and "row \<noteq> []"
    and "length row \<le> length labels"
  shows "\<exists>ix. np_argmax [row] = Inr ix
           \<and> ix < length row
           \<and> row ! ix = Max (set row)
           \<and> (\<forall>j < ix. row ! j < row ! ix)
           \<and> classify tokenizer predict labels text =
               ([PrintArray [row], PrintPrediction (labels ! ix) (row ! ix)], Inr ())"
proof -
  from np_argmax_row[OF assms(3)] obtain ix where
    ix: "np_argmax [row] = Inr ix" "ix < length row"
        "\<forall>j < length row. row ! j \<le> row ! ix" "\<forall>j < ix. row ! j < row ! ix"
    by blast
  have mem: "row ! ix \<in> set row" using ix(2) by simp
  have ub: "\<forall>y \<in> set row. y \<le> row ! ix"
    using ix(3) by (auto simp: in_set_conv_nth)
  have mx: "row ! ix = Max (set row)"
  proof (rule sym, rule Max_eqI)
    show "finite (set row)" by simp
    show "\<And>y. y \<in> set row \<Longrightarrow> y \<le> row ! ix" using ub by blast
    show "row ! ix \<in> set row" by (rule mem)
  qed
  have lab: "getitem labels ix = Inr (labels ! ix)"
    using ix(2) assms(4) by (simp add: getitem_def)
  have r0: "getitem [row] 0 = Inr row" by (simp add: getitem_def)
  have conf: "getitem row ix = Inr (row ! ix)" using ix(2) by (simp add: getitem_def)
  have "classify tokenizer predict labels text =
          ([PrintArray [row], PrintPrediction (labels ! ix) (row ! ix)], Inr ())"
    by (simp add: classify_def assms(1,2) ix(1) lab r0 conf)
  with ix(1,2,4) mx show ?thesis by blast
qed

theorem classify_prints_argmax_witness:
  "padded_example (\<lambda>t. [5, 9, 2]) ''Markets rally'' = Inr [[5, 9, 2] @ replicate 37 0]
   \<and> classify (\<lambda>t. [5, 9, 2]) (\<lambda>x. Inr [[1/10, 7/10, 1/10, 1/10]])
        [''b'', ''e'', ''m'', ''t''] ''Markets rally''
      = ([PrintArray [[1/10, 7/10, 1/10, 1/10]], PrintPrediction ''e'' (7/10)], Inr ())"
proof -
  let ?tok = "\<lambda>t::string. [5, 9, 2::nat]"
  let ?row = "[1/10, 7/10, 1/10, 1/10::real]"
  let ?predict = "\<lambda>x::int_matrix. (Inr [?row] :: py_error + matrix)"
  let ?labels = "[''b'', ''e'', ''m'', ''t'']"
  have h1: "padded_example ?tok ''Markets rally'' = Inr [[5, 9, 2] @ replicate 37 0]"
    by (rule short_headline_padded)
  have h2: "?predict [[5, 9, 2] @ replicate 37 0] = Inr [?row]" by simp
  have h3: "?row \<noteq> []" by simp
  have h4: "length ?row \<le> length ?labels" by simp
  have am: "np_argmax [?row] = Inr 1" by (simp add: np_argmax_def)
  from classify_prints_argmax[of ?tok "''Markets rally''" _ ?predict ?row ?labels, OF h1 h2 h3 h4]
  obtain ix where "np_argmax [?row] = Inr ix"
    and c: "classify ?tok ?predict ?labels ''Markets rally'' =
       ([PrintArray [?row], PrintPrediction (?labels ! ix) (?row ! ix)], Inr ())"
    by blast
  with am have "ix = 1" by simp
  with c h1 show ?thesis by simp
qed

text \<open>
  C2. The model is a sequential stack of exactly seven layers, in this order: Embedding,
  Conv1D, MaxPooling1D, Flatten, Dropout, Dense with relu, Dense with softmax. Only the
  constructor calls are the notebook's; what the layers compute is the framework's.
\<close>

theorem model_is_seven_layers:
  "layers (model embedding_matrix labels) =
     [Embedding (length embedding_matrix) 100 [embedding_matrix] 40 False ''embed'',
      Conv1D 128 3 Relu ''conv_1'',
      MaxPooling1D 5 ''maxpool_1'',
      Flatten ''flat_1'',
      Dropout (3 / 10) ''dropout_1'',
      Dense 128 Relu ''dense_1'',
      Dense (length labels) Softmax ''out_1'']
   \<and> length (layers (model embedding_matrix labels)) = 7"
  by (simp add: model_def model_layers_def Sequential_def add_def vocab_size_def num_classes_def)

text \<open>
  C3. The dataset file \<^verbatim>\<open>data/newsCorpora.csv\<close> is read with a tab as delimiter and
  without a header row, and its columns are labelled TITLE, URL, PUBLISHER, CATEGORY,
  STORY, HOSTNAME, TIMESTAMP, seven labels in that order: whenever the load succeeds, the
  data frame has exactly these columns, and its rows are all the rows that the parser cut
  out of the file at tabs, none of them taken as a header.
\<close>

theorem dataset_read_as_tsv:
  "filepath_or_buffer df_args = ''data/newsCorpora.csv''
   \<and> delimiter df_args = [CHR 0x09]
   \<and> header df_args = None
   \<and> names df_args =
       [''TITLE'', ''URL'', ''PUBLISHER'', ''CATEGORY'', ''STORY'', ''HOSTNAME'', ''TIMESTAMP'']
   \<and> length (names df_args) = 7
   \<and> (load_df parse_rows fs = Inr df \<longrightarrow>
         columns df =
           [''TITLE'', ''URL'', ''PUBLISHER'', ''CATEGORY'', ''STORY'', ''HOSTNAME'', ''TIMESTAMP'']
         \<and> (\<exists>content. files fs [''data'', ''newsCorpora.csv''] = Some (TextFile content)
                \<and> parse_rows [CHR 0x09] content = Inr (rows df)))"
proof -
  have args: "filepath_or_buffer df_args = ''data/newsCorpora.csv''
     \<and> delimiter df_args = [CHR 0x09]
     \<and> header df_args = None
     \<and> names df_args =
       [''TITLE'', ''URL'', ''PUBLISHER'', ''CATEGORY'', ''STORY'', ''HOSTNAME'', ''TIMESTAMP'']
     \<and> length (names df_args) = 7"
    by (simp add: df_args_def column_names_def)
  have load: "load_df parse_rows fs = Inr df \<longrightarrow>
         columns df =
           [''TITLE'', ''URL'', ''PUBLISHER'', ''CATEGORY'', ''STORY'', ''HOSTNAME'', ''TIMESTAMP'']
         \<and> (\<exists>content. files fs [''data'', ''newsCorpora.csv''] = Some (TextFile content)
                \<and> parse_rows [CHR 0x09] content = Inr (rows df))"
    by (auto simp: load_df_def pd_read_csv_def df_args_def column_names_def normpath_csv
        Let_def split: if_splits option.splits file_content.splits sum.splits)
  from args load show ?thesis by blast
qed

theorem dataset_read_as_tsv_witness:
  "load_df (\<lambda>d c. Inr [split_on (hd d) c]) workspace_fs =
     Inr \<lparr> columns = [''TITLE'', ''URL'', ''PUBLISHER'', ''CATEGORY'', ''STORY'', ''HOSTNAME'',
                       ''TIMESTAMP''],
           rows = [[''Fed holds rates'', ''http://a.example/1'', ''Reuters'', ''b'', ''dXyZ'',
                    ''a.example'', ''1394470370698'']] \<rparr>
   \<and> columns \<lparr> columns = [''TITLE'', ''URL'', ''PUBLISHER'', ''CATEGORY'', ''STORY'',
                            ''HOSTNAME'', ''TIMESTAMP''],
                rows = [[''Fed holds rates'', ''http://a.example/1'', ''Reuters'', ''b'', ''dXyZ'',
                         ''a.example'', ''1394470370698'']] \<rparr>
       = [''TITLE'', ''URL'', ''PUBLISHER'', ''CATEGORY'', ''STORY'', ''HOSTNAME'', ''TIMESTAMP'']"
proof -
  let ?parse = "\<lambda>(d::string) (c::string). (Inr [split_on (hd d) c] :: py_error + string list list)"
  let ?df = "\<lparr> columns = [''TITLE'', ''URL'', ''PUBLISHER'', ''CATEGORY'', ''STORY'', ''HOSTNAME'',
                         ''TIMESTAMP''],
             rows = [[''Fed holds rates'', ''http://a.example/1'', ''Reuters'', ''b'', ''dXyZ'',
                      ''a.example'', ''1394470370698'']] \<rparr>"
  have h: "load_df ?parse workspace_fs = Inr ?df"
    by (simp add: load_df_def pd_read_csv_def df_args_def column_names_def normpath_csv
        workspace_fs_def below_a_file_def is_dir_def ancestors_def upt_rec)
  from dataset_read_as_tsv[of ?parse workspace_fs ?df] h show ?thesis by blast
qed

text \<open>
  C4. For every input string, the token sequence is brought to exactly length 40 before
  it is given to the model. Whenever the padding returns, it returns one row of length
  40: the last 40 tokens of a longer sequence (the library's default truncation), or the
  tokens of a shorter one followed by zeros (post-padding). When the token ids fit
  \<open>int32\<close>, as those of a fitted tokenizer do, the padding does return, and that row is
  what \<open>classify\<close> hands to the model and nothing else: an exception of the forward pass
  on this row is the exception of \<open>classify\<close>, its result on this row is what
  \<open>classify\<close> prints first, and \<open>classify\<close> does not depend on what the forward pass
  does on any other input.
\<close>

theorem classify_input_has_length_40:
  "(padded_example tokenizer text = Inr padded \<longrightarrow>
      (\<exists>row. padded = [row] \<and> length row = 40
           \<and> row = drop (length (tokenizer text) - 40) (tokenizer text)
                   @ replicate (40 - length (tokenizer text)) 0))
   \<and> ((\<forall>t \<in> set (tokenizer text). t < 2 ^ 31) \<longrightarrow>
      (\<exists>row. padded_example tokenizer text = Inr [row] \<and> length row = 40
           \<and> row = drop (length (tokenizer text) - 40) (tokenizer text)
                   @ replicate (40 - length (tokenizer text)) 0
           \<and> (\<forall>e. predict [row] = Inl e \<longrightarrow>
                  classify tokenizer predict labels text = ([], Inl e))
           \<and> (\<forall>result. predict [row] = Inr result \<longrightarrow>
                  (\<exists>rest outcome. classify tokenizer predict labels text
                                     = (PrintArray result # rest, outcome)))
           \<and> (\<forall>predict'. predict' [row] = predict [row] \<longrightarrow>
                  classify tokenizer predict' labels text
                    = classify tokenizer predict labels text)))"
proof -
  let ?row = "drop (length (tokenizer text) - 40) (tokenizer text)
                @ replicate (40 - length (tokenizer text)) 0"
  have len: "length ?row = 40" by (rule padded_row_length)
  have 1: "padded_example tokenizer text = Inr padded \<longrightarrow>
      (\<exists>row. padded = [row] \<and> length row = 40 \<and> row = ?row)"
    using padded_example_Inr[of tokenizer "text" padded] len by blast
  have 2: "(\<forall>t \<in> set (tokenizer text). t < 2 ^ 31) \<longrightarrow>
      (\<exists>row. padded_example tokenizer text = Inr [row] \<and> length row = 40 \<and> row = ?row
           \<and> (\<forall>e. predict [row] = Inl e \<longrightarrow>
                  classify tokenizer predict labels text = ([], Inl e))
           \<and> (\<forall>result. predict [row] = Inr result \<longrightarrow>
                  (\<exists>rest outcome. classify tokenizer predict labels text
                                     = (PrintArray result # rest, outcome)))
           \<and> (\<forall>predict'. predict' [row] = predict [row] \<longrightarrow>
                  classify tokenizer predict' labels text
                    = classify tokenizer predict labels text))"
  proof
    assume ids: "\<forall>t \<in> set (tokenizer text). t < 2 ^ 31"
    have pe: "padded_example tokenizer text = Inr [?row]" by (rule padded_example_eq[of tokenizer "text", OF ids])
    have a: "\<forall>e. predict [?row] = Inl e \<longrightarrow>
        classify tokenizer predict labels text = ([], Inl e)"
      by (simp add: classify_def pe)
    have b: "\<forall>result. predict [?row] = Inr result \<longrightarrow>
        (\<exists>rest outcome. classify tokenizer predict labels text
                           = (PrintArray result # rest, outcome))"
      by (auto simp: classify_def pe split: sum.splits)
    have c: "\<forall>predict'. predict' [?row] = predict [?row] \<longrightarrow>
        classify tokenizer predict' labels text = classify tokenizer predict labels text"
      by (simp add: classify_def pe)
    show "\<exists>row. padded_example tokenizer text = Inr [row] \<and> length row = 40 \<and> row = ?row
           \<and> (\<forall>e. predict [row] = Inl e \<longrightarrow>
                  classify tokenizer predict labels text = ([], Inl e))
           \<and> (\<forall>result. predict [row] = Inr result \<longrightarrow>
                  (\<exists>rest outcome. classify tokenizer predict labels text
                                     = (PrintArray result # rest, outcome)))
           \<and> (\<forall>predict'. predict' [row] = predict [row] \<longrightarrow>
                  classify tokenizer predict' labels text
                    = classify tokenizer predict labels text)"
      using pe len a b c by blast
  qed
  from 1 2 show ?thesis by blast
qed

theorem classify_input_has_length_40_witness:
  "padded_example (\<lambda>t. [5, 9, 2]) ''Markets rally'' = Inr [[5, 9, 2] @ replicate 37 0]
   \<and> length ([5, 9, 2] @ replicate 37 (0 :: nat)) = 40
   \<and> classify (\<lambda>t. [5, 9, 2])
        (\<lambda>x. if x = [[5, 9, 2] @ replicate 37 0] then Inl ValueError else Inr [[1]])
        [''b'', ''e'', ''m'', ''t''] ''Markets rally''
       = ([], Inl ValueError)
   \<and> padded_example (\<lambda>t. replicate 50 3) ''Markets rally'' = Inr [replicate 40 3]"
proof -
  let ?tok = "\<lambda>t::string. [5, 9, 2::nat]"
  let ?long = "\<lambda>t::string. replicate 50 (3::nat)"
  let ?predict = "\<lambda>x::int_matrix.
      if x = [[5, 9, 2] @ replicate 37 0] then Inl ValueError else (Inr [[1]] :: py_error + matrix)"
  have ids: "\<forall>t \<in> set (?tok ''Markets rally''). t < 2 ^ 31" by simp
  have ids': "\<forall>t \<in> set (?long ''Markets rally''). t < 2 ^ 31" by simp
  note w = classify_input_has_length_40[THEN conjunct2, THEN mp]
  from w[of ?tok "''Markets rally''" ?predict "[''b'', ''e'', ''m'', ''t'']", OF ids]
  obtain row where
    pe: "padded_example ?tok ''Markets rally'' = Inr [row]"
    and len: "length row = 40"
    and row: "row = drop (length (?tok ''Markets rally'') - 40) (?tok ''Markets rally'')
                @ replicate (40 - length (?tok ''Markets rally'')) 0"
    and raised: "\<forall>e. ?predict [row] = Inl e \<longrightarrow>
        classify ?tok ?predict [''b'', ''e'', ''m'', ''t''] ''Markets rally'' = ([], Inl e)"
    by blast
  have r: "row = [5, 9, 2] @ replicate 37 0" using row by simp
  have 1: "padded_example ?tok ''Markets rally'' = Inr [[5, 9, 2] @ replicate 37 0]"
    using pe r by simp
  have 2: "length ([5, 9, 2] @ replicate 37 (0 :: nat)) = 40" using len r by simp
  have "?predict [row] = Inl ValueError" using r by simp
  with raised have 3: "classify ?tok ?predict [''b'', ''e'', ''m'', ''t''] ''Markets rally''
      = ([], Inl ValueError)"
    by blast
  from w[of ?long "''Markets rally''" ?predict "[''b'', ''e'', ''m'', ''t'']", OF ids']
  obtain row' where
    pe': "padded_example ?long ''Markets rally'' = Inr [row']"
    and row': "row' = drop (length (?long ''Markets rally'') - 40) (?long ''Markets rally'')
                @ replicate (40 - length (?long ''Markets rally'')) 0"
    by blast
  have "row' = replicate 40 3" using row' by simp
  with pe' have 4: "padded_example ?long ''Markets rally'' = Inr [replicate 40 3]" by simp
  from 1 2 3 4 show ?thesis by blast
qed

text \<open>
  C5, as amended. The saving cells write exactly five arrays, in numpy's binary format,
  under fixed relative paths: the embedding matrix at
  \<^verbatim>\<open>./data/embeddings/docs-embedding-matrix.npy\<close> (the name given to \<^verbatim>\<open>np.save\<close> has no
  extension and numpy appends \<^verbatim>\<open>.npy\<close>), and the splits at
  \<^verbatim>\<open>./data/train/train_X.npy\<close>, \<^verbatim>\<open>./data/train/train_Y.npy\<close>,
  \<^verbatim>\<open>./data/test/test_X.npy\<close> and \<^verbatim>\<open>./data/test/test_Y.npy\<close>. Whenever the cells run
  through, the files afterwards are those before with these five added or replaced, and
  the only directories made are \<^verbatim>\<open>data\<close>, \<^verbatim>\<open>data/train\<close> and \<^verbatim>\<open>data/test\<close>.
\<close>

theorem five_arrays_saved:
  assumes "persist_arrays fs embedding_matrix X_train X_test y_train y_test = Inr fs'"
  shows "files fs' = (files fs)
           ([''data'', ''embeddings'', ''docs-embedding-matrix.npy'']
              \<mapsto> NpyFile (FloatArray embedding_matrix),
            [''data'', ''train'', ''train_X.npy''] \<mapsto> NpyFile (IntArray X_train),
            [''data'', ''train'', ''train_Y.npy''] \<mapsto> NpyFile (FloatArray y_train),
            [''data'', ''test'', ''test_X.npy''] \<mapsto> NpyFile (IntArray X_test),
            [''data'', ''test'', ''test_Y.npy''] \<mapsto> NpyFile (FloatArray y_test))
       \<and> dirs fs' = dirs fs \<union> {[''data''], [''data'', ''train''], [''data'', ''test'']}"
proof -
  from assms obtain fs0 where
    s0: "save_embedding_matrix fs embedding_matrix = Inr fs0"
    and sp: "save_splits fs0 X_train X_test y_train y_test = Inr fs'"
    unfolding persist_arrays_def by (blast dest: and_then_Inr)
  from sp obtain fs1 fs2 fs3 fs4 fs5 where
    s1: "os_makedirs fs0 ''./data/train'' = Inr fs1"
    and s2: "np_save fs1 ''./data/train/train_X.npy'' (IntArray X_train) = Inr fs2"
    and s3: "np_save fs2 ''./data/train/train_Y.npy'' (FloatArray y_train) = Inr fs3"
    and s4: "os_makedirs fs3 ''./data/test'' = Inr fs4"
    and s5: "np_save fs4 ''./data/test/test_X.npy'' (IntArray X_test) = Inr fs5"
    and s6: "np_save fs5 ''./data/test/test_Y.npy'' (FloatArray y_test) = Inr fs'"
    unfolding save_splits_def by (blast dest: and_then_Inr)
  have e0: "fs0 = fs\<lparr>files := (files fs)([''data'', ''embeddings'', ''docs-embedding-matrix.npy'']
              \<mapsto> NpyFile (FloatArray embedding_matrix))\<rparr>"
    using np_save_Inr[OF s0[unfolded save_embedding_matrix_def]] by (simp only: saved_paths)
  have e1: "fs1 = fs0\<lparr>dirs := dirs fs0 \<union> {[''data''], [''data'', ''train'']}\<rparr>"
    using os_makedirs_Inr[OF s1] by (simp only: made_dirs)
  have e2: "fs2 = fs1\<lparr>files := (files fs1)([''data'', ''train'', ''train_X.npy'']
              \<mapsto> NpyFile (IntArray X_train))\<rparr>"
    using np_save_Inr[OF s2] by (simp only: saved_paths)
  have e3: "fs3 = fs2\<lparr>files := (files fs2)([''data'', ''train'', ''train_Y.npy'']
              \<mapsto> NpyFile (FloatArray y_train))\<rparr>"
    using np_save_Inr[OF s3] by (simp only: saved_paths)
  have e4: "fs4 = fs3\<lparr>dirs := dirs fs3 \<union> {[''data''], [''data'', ''test'']}\<rparr>"
    using os_makedirs_Inr[OF s4] by (simp only: made_dirs)
  have e5: "fs5 = fs4\<lparr>files := (files fs4)([''data'', ''test'', ''test_X.npy'']
              \<mapsto> NpyFile (IntArray X_test))\<rparr>"
    using np_save_Inr[OF s5] by (simp only: saved_paths)
  have e6: "fs' = fs5\<lparr>files := (files fs5)([''data'', ''test'', ''test_Y.npy'']
              \<mapsto> NpyFile (FloatArray y_test))\<rparr>"
    using np_save_Inr[OF s6] by (simp only: saved_paths)
  have f: "files fs' = (files fs)
           ([''data'', ''embeddings'', ''docs-embedding-matrix.npy'']
              \<mapsto> NpyFile (FloatArray embedding_matrix),
            [''data'', ''train'', ''train_X.npy''] \<mapsto> NpyFile (IntArray X_train),
            [''data'', ''train'', ''train_Y.npy''] \<mapsto> NpyFile (FloatArray y_train),
            [''data'', ''test'', ''test_X.npy''] \<mapsto> NpyFile (IntArray X_test),
            [''data'', ''test'', ''test_Y.npy''] \<mapsto> NpyFile (FloatArray y_test))"
    by (simp add: e0 e1 e2 e3 e4 e5 e6)
  have d: "dirs fs' = dirs fs \<union> {[''data''], [''data'', ''train''], [''data'', ''test'']}"
    by (auto simp: e0 e1 e2 e3 e4 e5 e6)
  from f d show ?thesis by blast
qed

theorem five_arrays_saved_witness:
  "persist_arrays workspace_fs [[1]] [[1]] [[2]] [[1, 0]] [[0, 1]] = Inr workspace_saved
   \<and> files workspace_saved = (files workspace_fs)
           ([''data'', ''embeddings'', ''docs-embedding-matrix.npy'']
              \<mapsto> NpyFile (FloatArray [[1]]),
            [''data'', ''train'', ''train_X.npy''] \<mapsto> NpyFile (IntArray [[1]]),
            [''data'', ''train'', ''train_Y.npy''] \<mapsto> NpyFile (FloatArray [[1, 0]]),
            [''data'', ''test'', ''test_X.npy''] \<mapsto> NpyFile (IntArray [[2]]),
            [''data'', ''test'', ''test_Y.npy''] \<mapsto> NpyFile (FloatArray [[0, 1]]))"
  using five_arrays_saved[OF persist_workspace] persist_workspace by blast

text \<open>
  The claim as first stated puts the embedding matrix at
  \<^verbatim>\<open>./data/embeddings/docs-embedding-matrix\<close>. After the saving cells have run in the
  example working directory, nothing is stored under that name; the array is under the
  name with \<^verbatim>\<open>.npy\<close> appended.
\<close>

theorem embedding_matrix_path_counterexample:
  "saved_at (persist_arrays workspace_fs [[1]] [[1]] [[2]] [[1, 0]] [[0, 1]])
     ''./data/embeddings/docs-embedding-matrix'' = Inr None
   \<and> saved_at (persist_arrays workspace_fs [[1]] [[1]] [[2]] [[1, 0]] [[0, 1]])
     ''./data/embeddings/docs-embedding-matrix.npy'' = Inr (Some (NpyFile (FloatArray [[1]])))"
proof -
  have p1: "normpath ''./data/embeddings/docs-embedding-matrix''
      = [''data'', ''embeddings'', ''docs-embedding-matrix'']"
    by (simp add: normpath_def)
  have p2: "normpath ''./data/embeddings/docs-embedding-matrix.npy''
      = [''data'', ''embeddings'', ''docs-embedding-matrix.npy'']"
    by (simp add: normpath_def)
  have f1: "files workspace_saved [''data'', ''embeddings'', ''docs-embedding-matrix''] = None"
    by (simp add: workspace_saved_def workspace_fs_def)
  have f2: "files workspace_saved [''data'', ''embeddings'', ''docs-embedding-matrix.npy'']
      = Some (NpyFile (FloatArray [[1]]))"
    by (simp add: workspace_saved_def workspace_fs_def)
  show ?thesis
    unfolding persist_workspace saved_at_def and_then_def
    by (simp only: sum.case p1 p2 f1 f2 simp_thms)
qed



text \<open>
  C7. When the CATEGORY column takes exactly the four values b, e, m and t (business,
  entertainment, health, science and technology), there are exactly four labels, every
  encoded label is a one-hot vector of length four (one entry 1 at the position of the
  row's label, the others 0), and the output layer of the model has
  \<open>num_classes = len(labels) = 4\<close> units.
\<close>

theorem four_one_hot_classes:
  assumes col: "get_column df ''CATEGORY'' = Inr col"
    and four: "set col = {''b'', ''e'', ''m'', ''t''}"
  shows "\<exists>encoded_y labels.
           dummy_encode_labels df ''CATEGORY'' = Inr (encoded_y, labels)
         \<and> labels = [''b'', ''e'', ''m'', ''t'']
         \<and> num_classes labels = 4
         \<and> length encoded_y = length col
         \<and> (\<forall>v \<in> set encoded_y.
               length v = 4 \<and> (\<exists>k<4. \<forall>j<4. v ! j = (if j = k then 1 else 0)))
         \<and> (\<forall>i < length col. encoded_y ! i = one_hot 4 (index_of labels (col ! i)))
         \<and> output_units (last (layers (model embedding_matrix labels))) = Some 4"
proof -
  let ?labels = "[''b'', ''e'', ''m'', ''t'']"
  let ?enc = "map (\<lambda>c. one_hot 4 (index_of ?labels c)) col"
  have lab: "sort (remdups col) = ?labels" by (rule labels_of_four[OF four])
  have res: "dummy_encode_labels df ''CATEGORY'' = Inr (?enc, ?labels)"
  proof -
    have l4: "length ?labels = 4" by simp
    show ?thesis by (simp only: dummy_encode_labels_def col lab Let_def l4 sum.case)
  qed
  have nc: "num_classes ?labels = 4" by (simp add: num_classes_def)
  have len: "length ?enc = length col" by simp
  have hot: "\<forall>v \<in> set ?enc. length v = 4 \<and> (\<exists>k<4. \<forall>j<4. v ! j = (if j = k then 1 else 0))"
  proof
    fix v assume "v \<in> set ?enc"
    then obtain c where c: "c \<in> set col" "v = one_hot 4 (index_of ?labels c)" by auto
    from c(1) four have "c \<in> set ?labels" by simp
    then have k: "index_of ?labels c < 4" using index_of_less[of c ?labels] by simp
    show "length v = 4 \<and> (\<exists>k<4. \<forall>j<4. v ! j = (if j = k then 1 else 0))"
      unfolding c(2) using k by (auto simp: one_hot_length one_hot_nth)
  qed
  have nth: "\<forall>i < length col. ?enc ! i = one_hot 4 (index_of ?labels (col ! i))" by simp
  have out: "output_units (last (layers (model embedding_matrix ?labels))) = Some 4"
    by (simp only: out_layer_units nc)
  show ?thesis
    by (intro exI conjI) (rule res, rule refl, rule nc, rule len, rule hot, rule nth, rule out)
qed

theorem four_one_hot_classes_witness:
  "get_column
     \<lparr> columns = [''TITLE'', ''URL'', ''PUBLISHER'', ''CATEGORY'', ''STORY'', ''HOSTNAME'',
                   ''TIMESTAMP''],
       rows = [[''Fed holds rates'', ''u1'', ''Reuters'', ''b'', ''s1'', ''h1'', ''1''],
               [''New phone out'', ''u2'', ''Wired'', ''t'', ''s2'', ''h2'', ''2''],
               [''Film wins prize'', ''u3'', ''Variety'', ''e'', ''s3'', ''h3'', ''3''],
               [''Flu season ends'', ''u4'', ''WebMD'', ''m'', ''s4'', ''h4'', ''4''],
               [''Stocks slip'', ''u5'', ''CNBC'', ''b'', ''s5'', ''h5'', ''5'']] \<rparr>
     ''CATEGORY'' = Inr [''b'', ''t'', ''e'', ''m'', ''b'']
   \<and> set [''b'', ''t'', ''e'', ''m'', ''b''] = {''b'', ''e'', ''m'', ''t''}
   \<and> dummy_encode_labels
     \<lparr> columns = [''TITLE'', ''URL'', ''PUBLISHER'', ''CATEGORY'', ''STORY'', ''HOSTNAME'',
                   ''TIMESTAMP''],
       rows = [[''Fed holds rates'', ''u1'', ''Reuters'', ''b'', ''s1'', ''h1'', ''1''],
               [''New phone out'', ''u2'', ''Wired'', ''t'', ''s2'', ''h2'', ''2''],
               [''Film wins prize'', ''u3'', ''Variety'', ''e'', ''s3'', ''h3'', ''3''],
               [''Flu season ends'', ''u4'', ''WebMD'', ''m'', ''s4'', ''h4'', ''4''],
               [''Stocks slip'', ''u5'', ''CNBC'', ''b'', ''s5'', ''h5'', ''5'']] \<rparr>
     ''CATEGORY''
     = Inr ([[1, 0, 0, 0], [0, 0, 0, 1], [0, 1, 0, 0], [0, 0, 1, 0], [1, 0, 0, 0]],
            [''b'', ''e'', ''m'', ''t''])
   \<and> num_classes [''b'', ''e'', ''m'', ''t''] = 4
   \<and> output_units (last (layers (model [[1]] [''b'', ''e'', ''m'', ''t'']))) = Some 4"
proof -
  let ?df = "\<lparr> columns = [''TITLE'', ''URL'', ''PUBLISHER'', ''CATEGORY'', ''STORY'', ''HOSTNAME'',
                   ''TIMESTAMP''],
       rows = [[''Fed holds rates'', ''u1'', ''Reuters'', ''b'', ''s1'', ''h1'', ''1''],
               [''New phone out'', ''u2'', ''Wired'', ''t'', ''s2'', ''h2'', ''2''],
               [''Film wins prize'', ''u3'', ''Variety'', ''e'', ''s3'', ''h3'', ''3''],
               [''Flu season ends'', ''u4'', ''WebMD'', ''m'', ''s4'', ''h4'', ''4''],
               [''Stocks slip'', ''u5'', ''CNBC'', ''b'', ''s5'', ''h5'', ''5'']] \<rparr>"
  let ?col = "[''b'', ''t'', ''e'', ''m'', ''b'']"
  let ?labels = "[''b'', ''e'', ''m'', ''t'']"
  have h1: "get_column ?df ''CATEGORY'' = Inr ?col"
    by (simp add: get_column_def index_of_def)
  have h2: "set ?col = {''b'', ''e'', ''m'', ''t''}" by auto
  from four_one_hot_classes[OF h1 h2, of "[[1]]"] obtain encoded_y :: matrix and labels where
    l: "labels = ?labels"
    and n: "num_classes labels = 4"
    and out: "output_units (last (layers (model [[1]] labels))) = Some 4"
    by blast
  have d: "dummy_encode_labels ?df ''CATEGORY''
      = Inr ([[1, 0, 0, 0], [0, 0, 0, 1], [0, 1, 0, 0], [0, 0, 1, 0], [1, 0, 0, 0]], ?labels)"
    by (simp add: dummy_encode_labels_def h1 labels_of_four[OF h2] Let_def one_hot_def
        index_of_def upt_rec)
  from h1 h2 d l n out show ?thesis by simp
qed

text \<open>
  C8. The embedding layer is built from the pretrained matrix with \<^verbatim>\<open>trainable=False\<close>.
  Whatever the optimizer computes, no training step changes the weights stored for the
  layer \<^verbatim>\<open>embed\<close>: after any sequence of steps, and after the whole of
  \<^verbatim>\<open>model.fit\<close> (5 epochs in batches of 16), they are still the one array
  \<open>embedding_matrix\<close>, which is also the array that the saving cell, when it ran
  through, stored on disk.
\<close>

theorem embedding_weights_frozen:
  "fit_model embedding_matrix labels init elementwise other_losses minimize forward shuffle
     X_train y_train ''embed''
     = [embedding_matrix]
   \<and> fold (train_step (layers (model embedding_matrix labels)) update) batches
       (initial_weights init (layers (model embedding_matrix labels))) ''embed''
     = [embedding_matrix]
   \<and> (save_embedding_matrix fs embedding_matrix = Inr fs' \<longrightarrow>
        files fs' [''data'', ''embeddings'', ''docs-embedding-matrix.npy'']
          = Some (NpyFile (FloatArray embedding_matrix)))"
proof -
  let ?m = "model embedding_matrix labels"
  have frozen: "\<not> list_ex (\<lambda>l. layer_name l = ''embed'' \<and> layer_trainable l) (layers ?m)"
    by (simp add: model_def model_layers_def Sequential_def add_def)
  have init: "initial_weights init (layers ?m) ''embed'' = [embedding_matrix]"
    by (simp add: model_def model_layers_def Sequential_def add_def)
  have 1: "fit_model embedding_matrix labels init elementwise other_losses minimize forward
      shuffle X_train y_train ''embed''
     = [embedding_matrix]"
    by (simp add: fit_model_def fit_frozen[OF frozen] init)
  have 2: "fold (train_step (layers ?m) update) batches (initial_weights init (layers ?m)) ''embed''
     = [embedding_matrix]"
    by (simp add: fold_train_step_frozen[OF frozen] init)
  have 3: "save_embedding_matrix fs embedding_matrix = Inr fs' \<longrightarrow>
        files fs' [''data'', ''embeddings'', ''docs-embedding-matrix.npy'']
          = Some (NpyFile (FloatArray embedding_matrix))"
  proof
    assume "save_embedding_matrix fs embedding_matrix = Inr fs'"
    then have "fs' = fs\<lparr>files := (files fs)
        (normpath (npy_name ''./data/embeddings/docs-embedding-matrix'')
           \<mapsto> NpyFile (FloatArray embedding_matrix))\<rparr>"
      unfolding save_embedding_matrix_def by (rule np_save_Inr)
    then show "files fs' [''data'', ''embeddings'', ''docs-embedding-matrix.npy'']
          = Some (NpyFile (FloatArray embedding_matrix))"
      by (simp add: saved_paths)
  qed
  from 1 2 3 show ?thesis by blast
qed

theorem embedding_weights_frozen_witness:
  "save_embedding_matrix workspace_fs [[1 / 2, 1 / 4]]
     = Inr (workspace_fs\<lparr>files := (files workspace_fs)
              ([''data'', ''embeddings'', ''docs-embedding-matrix.npy'']
                 \<mapsto> NpyFile (FloatArray [[1 / 2, 1 / 4]]))\<rparr>)
   \<and> files (workspace_fs\<lparr>files := (files workspace_fs)
              ([''data'', ''embeddings'', ''docs-embedding-matrix.npy'']
                 \<mapsto> NpyFile (FloatArray [[1 / 2, 1 / 4]]))\<rparr>)
        [''data'', ''embeddings'', ''docs-embedding-matrix.npy'']
       = Some (NpyFile (FloatArray [[1 / 2, 1 / 4]]))
   \<and> fit_model [[1 / 2, 1 / 4]] [''b'', ''e'', ''m'', ''t''] (\<lambda>name. [])
        (\<lambda>t p. \<bar>t - p\<bar>) (\<lambda>name t p. 0) (\<lambda>opt objective w name. [[[0]]])
        (\<lambda>training w x. [1 / 4, 1 / 4, 1 / 4, 1 / 4]) (\<lambda>epoch xs. rev xs)
        [[7]] [[1, 0, 0, 0]] ''embed''
       = [[[1 / 2, 1 / 4]]]"
proof -
  let ?fs1 = "workspace_fs\<lparr>files := (files workspace_fs)
              ([''data'', ''embeddings'', ''docs-embedding-matrix.npy'']
                 \<mapsto> NpyFile (FloatArray [[1 / 2, 1 / 4]]))\<rparr>"
  have h: "save_embedding_matrix workspace_fs [[1 / 2, 1 / 4]] = Inr ?fs1"
    by (simp add: save_embedding_matrix_def np_save_def is_dir_def below_a_file_def
        ancestors_def upt_rec Let_def saved_paths workspace_fs_def)
  note w = embedding_weights_frozen[of "[[1 / 2, 1 / 4]]" "[''b'', ''e'', ''m'', ''t'']"
      "\<lambda>name. []" "\<lambda>t p. \<bar>t - p\<bar>" "\<lambda>name t p. 0" "\<lambda>opt objective w name. [[[0]]]"
      "\<lambda>training w x. [1 / 4, 1 / 4, 1 / 4, 1 / 4]" "\<lambda>epoch xs. rev xs" "[[7]]"
      "[[1, 0, 0, 0]]" _ _ workspace_fs ?fs1]
  from w h show ?thesis by blast
qed

text \<open>
  C9. The split is a function of its inputs and of the permutation that the generator
  seeded with 42 gives for the number of rows: any run with the same permutation returns
  the same four arrays. For inputs of equal length with at least two rows, the test arrays
  hold one fifth of the rows, rounded up, the training arrays hold the others, and no row
  is shared or dropped: training and test rows together are the input rows, labels
  staying with their documents.
\<close>

theorem split_is_partition:
  assumes perm: "mset (permutation 42 (length X)) = mset [0..<length X]"
    and len: "length y = length X"
    and two: "2 \<le> length X"
  shows "\<exists>X_train X_test y_train y_test.
           split_train_test permutation X y = Inr (X_train, X_test, y_train, y_test)
         \<and> length X_test = (length X + 4) div 5
         \<and> length y_test = length X_test
         \<and> length X_train = length X - length X_test
         \<and> length y_train = length X_train
         \<and> mset (X_train @ X_test) = mset X
         \<and> mset (y_train @ y_test) = mset y
         \<and> mset (zip X_train y_train @ zip X_test y_test) = mset (zip X y)
         \<and> (\<forall>permutation'. permutation' 42 (length X) = permutation 42 (length X) \<longrightarrow>
               split_train_test permutation' X y = Inr (X_train, X_test, y_train, y_test))"
proof -
  define n where "n = length X"
  define k where "k = (n + 4) div 5"
  define p where "p = permutation 42 n"
  define te where "te = take k p"
  define tr where "tr = take (n - k) (drop k p)"
  have k1: "k \<le> n" using two unfolding k_def n_def by linarith
  have k2: "n - k \<noteq> 0" using two unfolding k_def n_def by linarith
  have pm: "mset p = mset [0..<n]" using perm unfolding p_def n_def .
  have lp: "length p = n" using pm mset_eq_length by fastforce
  have idx: "mset (tr @ te) = mset [0..<length X]"
    using split_indices(1)[OF pm k1] unfolding tr_def te_def n_def .
  have inb: "\<not> list_ex (\<lambda>i. length X \<le> i) (tr @ te)"
    using split_indices(2)[OF pm k1] unfolding tr_def te_def n_def .
  have kk: "k = nat \<lceil>(2 / 10 :: rat) * of_nat (length X)\<rceil>"
    unfolding k_def n_def by (rule n_test_fifth[symmetric])
  have res: "split_train_test permutation X y =
      Inr (map ((!) X) tr, map ((!) X) te, map ((!) y) tr, map ((!) y) te)"
    using train_test_split_result[of y X k permutation, OF len kk] k2 inb
    unfolding tr_def te_def p_def n_def by blast
  have det: "\<forall>permutation'. permutation' 42 (length X) = permutation 42 (length X) \<longrightarrow>
      split_train_test permutation' X y =
        Inr (map ((!) X) tr, map ((!) X) te, map ((!) y) tr, map ((!) y) te)"
  proof (intro allI impI)
    fix permutation' :: "nat \<Rightarrow> nat \<Rightarrow> nat list"
    assume same: "permutation' 42 (length X) = permutation 42 (length X)"
    show "split_train_test permutation' X y =
        Inr (map ((!) X) tr, map ((!) X) te, map ((!) y) tr, map ((!) y) te)"
      using train_test_split_result[of y X k permutation', OF len kk] k2 inb
      unfolding tr_def te_def p_def n_def same by blast
  qed
  have lte: "length te = k" unfolding te_def using lp k1 by simp
  have ltr: "length tr = n - k" unfolding tr_def using lp by simp
  have l1: "length (map ((!) X) te) = (length X + 4) div 5" using lte unfolding k_def n_def by simp
  have l2: "length (map ((!) y) te) = length (map ((!) X) te)" by simp
  have l3: "length (map ((!) X) tr) = length X - length (map ((!) X) te)"
    using ltr lte unfolding n_def by simp
  have l4: "length (map ((!) y) tr) = length (map ((!) X) tr)" by simp
  show ?thesis
    by (intro exI conjI)
       (rule res, rule l1, rule l2, rule l3, rule l4, (rule rows_at_partition[OF idx len])+,
        rule det)
qed

theorem split_is_partition_witness:
  "mset ([3, 0, 4, 1, 2] :: nat list) = mset [0..<5]
   \<and> split_train_test (\<lambda>seed n. [3, 0, 4, 1, 2])
        [[11], [12], [13], [14], [15]]
        [[1, 0], [0, 1], [1, 0], [0, 1], [1, 0]]
      = Inr ([[11], [15], [12], [13]], [[14]], [[1, 0], [1, 0], [0, 1], [1, 0]], [[0, 1]])
   \<and> length [[14 :: nat]] = (length [[11 :: nat], [12], [13], [14], [15]] + 4) div 5"
proof -
  let ?perm = "\<lambda>(seed::nat) (n::nat). [3, 0, 4, 1, 2 :: nat]"
  let ?X = "[[11], [12], [13], [14], [15]] :: int_matrix"
  let ?y = "[[1, 0], [0, 1], [1, 0], [0, 1], [1, 0]] :: matrix"
  have u: "[0..<5] = [0, 1, 2, 3, 4 :: nat]" by (simp add: upt_rec)
  have h0: "mset ([3, 0, 4, 1, 2] :: nat list) = mset [0..<5]" unfolding u by simp
  have l5: "length ?X = 5" by simp
  have h1: "mset (?perm 42 (length ?X)) = mset [0..<length ?X]" unfolding l5 by (rule h0)
  have h2: "length ?y = length ?X" by simp
  have h3: "2 \<le> length ?X" by simp
  from split_is_partition[of ?perm ?X ?y, OF h1 h2 h3]
  obtain X_train X_test y_train y_test where
    r: "split_train_test ?perm ?X ?y = Inr (X_train, X_test, y_train, y_test)"
    and lt: "length X_test = (length ?X + 4) div 5"
    by blast
  have nt: "(1::nat) = nat \<lceil>(2 / 10 :: rat) * of_nat (length ?X)\<rceil>" by simp
  have c: "split_train_test ?perm ?X ?y
      = Inr ([[11], [15], [12], [13]], [[14]], [[1, 0], [1, 0], [0, 1], [1, 0]], [[0, 1]])"
    using train_test_split_result[of ?y ?X 1 ?perm, OF h2 nt] by simp
  from r c have "X_test = [[14]]" by simp
  with lt h0 c show ?thesis by simp
qed



end
